theory Spec2Isabelle
  imports Main "HOL-Library.AList"
begin

section \<open>The room server of SchlossGame (server.js)\<close>

text \<open>
  The server keeps one table \<open>rooms\<close> of game rooms and reacts to six socket events
  (createRoom, joinRoom, setSecret, guess, skipTurn, disconnect) and to the expiry of the
  turn timers it schedules. Every handler runs to completion before the next one starts,
  so the server is a function from the state and one event to the next state and the
  list of messages sent.

  Conventions of the embedding:
  \<^item> socket ids are handed out by the transport and are kept abstract (the type
    parameter \<open>'s\<close>): a player table is keyed by them and enumerates in insertion
    order, and a socket id is truthy;
  \<^item> the payload of an event is an object whose fields \<open>roomId\<close>, \<open>name\<close>, \<open>secret\<close> and
    \<open>value\<close> are arbitrary JSON values or absent (\<open>jsval\<close>); the handlers convert and
    compare them as JavaScript does, and a conversion that throws ends the handler;
  \<^item> a string is the list of its characters as bytes; a string that passes the
    regular expression is made of digits, and there the length of the list is the
    length JavaScript reports;
  \<^item> \<open>codeLength\<close> is an integer or absent;
  \<^item> a lookup \<open>rooms[roomId]\<close> converts \<open>roomId\<close> to a property key and has three
    answers: an own entry, a member inherited from \<open>Object.prototype\<close> (for the key
    \<open>constructor\<close>, say), or \<open>undefined\<close>;
  \<^item> the two uses of \<open>Math.random\<close> are inputs of the event: the four indices drawn by
    generateRoomId and the coin of the game start;
  \<^item> time is abstract: a pending timeout may fire at any moment (the event
    \<open>TimerExpiry\<close>), and \<open>TURN_TIME_MS\<close> does not appear;
  \<^item> \<open>socket.join\<close> and the emits are recorded, in order, as the effects of a handler,
    each with the room value it was called with;
  \<^item> an uncaught exception ends a handler at the point of the throw (\<open>Thrown\<close>);
  \<^item> \<open>console.log\<close> is left out.
\<close>

subsection \<open>JSON values\<close>

text \<open>
  A number is given by the string \<open>ToString\<close> makes of it: the handlers observe a
  number only through \<open>ToString\<close> and \<open>===\<close>, and two numbers are \<open>===\<close> exactly when
  their strings are equal (the sign of zero, which \<open>===\<close> ignores, does not show in the
  string). An object is the list of its own members as \<open>JSON.parse\<close> built it.
\<close>

datatype jsval =
    JUndefined
  | JNull
  | JBool bool
  | JNum string
  | JStr string
  | JArr "jsval list"
  | JObj "(string \<times> jsval) list"

type_synonym roomId = string
type_synonym timer_id = nat

datatype error = TypeError

subsection \<open>State\<close>

record player =
  name :: jsval
  secret :: jsval
  ready :: bool

record 's room =
  players :: "('s \<times> player) list"
  codeLength :: int
  started :: bool
  turnOrder :: "'s option list"
  winner :: "'s option"
  turnTimer :: "timer_id option"

text \<open>
  \<open>timeouts\<close> are the pending \<open>setTimeout\<close> callbacks, each with the \<open>roomId\<close> value its
  closure captured; \<open>nextTimer\<close> is the identity the next \<open>setTimeout\<close> returns.
\<close>

record 's state =
  rooms :: "(roomId \<times> 's room) list"
  timeouts :: "(timer_id \<times> jsval) list"
  nextTimer :: timer_id

datatype 's message =
    RoomCreated roomId int
  | ErrorMessage string
  | RoomJoined jsval int "('s \<times> jsval) list"
  | PlayerReady 's jsval bool
  | GameStarted jsval "'s option"
  | GuessResult 's jsval nat
  | GameOver 's jsval "'s option" jsval
  | TurnChanged jsval "'s option"
  | TurnSkipped "'s option" "'s option"
  | OpponentLeft 's
  | TurnTimeout jsval "'s option" "'s option"

datatype 's effect =
    SocketJoin 's jsval
  | SocketEmit 's "'s message"
  | RoomEmit jsval "'s message"

datatype 's outcome =
    Done "'s state" "'s effect list"
  | Thrown error "'s state" "'s effect list"

primrec state_of :: "'s outcome \<Rightarrow> 's state" where
  "state_of (Done s out) = s"
| "state_of (Thrown e s out) = s"

primrec emitted :: "'s outcome \<Rightarrow> 's effect list" where
  "emitted (Done s out) = out"
| "emitted (Thrown e s out) = out"

primrec threw :: "'s outcome \<Rightarrow> bool" where
  "threw (Done s out) = False"
| "threw (Thrown e s out) = True"

subsection \<open>JavaScript strings, arrays and objects\<close>

definition is_digit :: "char \<Rightarrow> bool" where
  "is_digit c = (c \<in> set ''0123456789'')"

text \<open>The regular expression \<open>/^\d+$/\<close> on a string: one or more characters, all digits.\<close>

definition all_digits :: "string \<Rightarrow> bool" where
  "all_digits v = (v \<noteq> [] \<and> list_all is_digit v)"

text \<open>
  \<open>ToString\<close> of a JSON value. An array joins its elements with commas, \<open>null\<close> and
  \<open>undefined\<close> elements giving the empty string. An object answers \<open>[object Object]\<close>
  through the inherited \<open>toString\<close>; an own member \<open>toString\<close> (never callable in a JSON
  value) hides it, \<open>valueOf\<close> yields no primitive either, and the conversion throws.
\<close>

fun to_string :: "jsval \<Rightarrow> error + string"
  and join_elements :: "jsval list \<Rightarrow> error + string" where
  "to_string JUndefined = Inr ''undefined''"
| "to_string JNull = Inr ''null''"
| "to_string (JBool b) = Inr (if b then ''true'' else ''false'')"
| "to_string (JNum img) = Inr img"
| "to_string (JStr v) = Inr v"
| "to_string (JArr xs) = join_elements xs"
| "to_string (JObj members) =
     (if map_of members ''toString'' = None then Inr ''[object Object]'' else Inl TypeError)"
| "join_elements [] = Inr []"
| "join_elements (x # xs) =
     (case (if x = JUndefined \<or> x = JNull then Inr [] else to_string x) of
        Inl e \<Rightarrow> Inl e
      | Inr a \<Rightarrow>
          if xs = [] then Inr a
          else (case join_elements xs of Inl e \<Rightarrow> Inl e | Inr b \<Rightarrow> Inr (a @ '','' @ b)))"

text \<open>\<open>/^\d+$/.test(x)\<close>: the regular expression is applied to \<open>ToString(x)\<close>.\<close>

definition test_digits :: "jsval \<Rightarrow> error + bool" where
  "test_digits x = (case to_string x of Inl e \<Rightarrow> Inl e | Inr t \<Rightarrow> Inr (all_digits t))"

text \<open>
  The decimal digits of a natural number, and the string of an integer (what
  \<open>ToString\<close> makes of an integer of magnitude below \<open>10^21\<close>).
\<close>

fun nat_digits :: "nat \<Rightarrow> string" where
  "nat_digits n =
     (if n < 10 then [''0123456789'' ! n]
      else nat_digits (n div 10) @ [''0123456789'' ! (n mod 10)])"

declare nat_digits.simps [simp del]

definition int_image :: "int \<Rightarrow> string" where
  "int_image n = (if n < 0 then CHR ''-'' # nat_digits (nat (- n)) else nat_digits (nat n))"

text \<open>
  \<open>x.length === n\<close> for a number \<open>n\<close>: reading \<open>length\<close> of \<open>null\<close> or \<open>undefined\<close> throws;
  a string and an array have their length; an object has the own member \<open>length\<close> it
  was sent with, if any; a boolean and a number have none.
\<close>

fun length_equals :: "jsval \<Rightarrow> int \<Rightarrow> error + bool" where
  "length_equals JUndefined n = Inl TypeError"
| "length_equals JNull n = Inl TypeError"
| "length_equals (JStr v) n = Inr (int (length v) = n)"
| "length_equals (JArr xs) n = Inr (int (length xs) = n)"
| "length_equals (JObj members) n = Inr (map_of members ''length'' = Some (JNum (int_image n)))"
| "length_equals (JBool b) n = Inr False"
| "length_equals (JNum img) n = Inr False"

text \<open>
  \<open>x[i]\<close>: a character of a string (as a string of length one), an element of an
  array, an own member of an object; \<open>undefined\<close> where there is none; a throw on
  \<open>null\<close> and \<open>undefined\<close>.
\<close>

fun js_index :: "jsval \<Rightarrow> nat \<Rightarrow> error + jsval" where
  "js_index JUndefined i = Inl TypeError"
| "js_index JNull i = Inl TypeError"
| "js_index (JStr v) i = Inr (if i < length v then JStr [v ! i] else JUndefined)"
| "js_index (JArr xs) i = Inr (if i < length xs then xs ! i else JUndefined)"
| "js_index (JObj members) i =
     Inr (case map_of members (nat_digits i) of Some x \<Rightarrow> x | None \<Rightarrow> JUndefined)"
| "js_index (JBool b) i = Inr JUndefined"
| "js_index (JNum img) i = Inr JUndefined"

text \<open>
  \<open>a === b\<close> for values that come from two different payloads: primitives are compared
  by value, and two arrays or objects are never the same object.
\<close>

fun strict_eq :: "jsval \<Rightarrow> jsval \<Rightarrow> bool" where
  "strict_eq (JArr xs) b = False"
| "strict_eq (JObj members) b = False"
| "strict_eq a b = (a = b)"

text \<open>\<open>v[i]\<close> on a string or an array of the server's own: \<open>None\<close> is \<open>undefined\<close>.\<close>

definition char_at :: "string \<Rightarrow> nat \<Rightarrow> char option" where
  "char_at v i = (if i < length v then Some (v ! i) else None)"

definition elem_at :: "'a option list \<Rightarrow> nat \<Rightarrow> 'a option" where
  "elem_at xs i = (if i < length xs then xs ! i else None)"

definition key_at :: "'a list \<Rightarrow> nat \<Rightarrow> 'a option" where
  "key_at xs i = (if i < length xs then Some (xs ! i) else None)"

fun indexOf :: "'a list \<Rightarrow> 'a \<Rightarrow> int" where
  "indexOf [] x = - 1"
| "indexOf (y # ys) x =
     (if y = x then 0 else (let k = indexOf ys x in if k < 0 then - 1 else k + 1))"

text \<open>
  The members every object literal inherits from \<open>Object.prototype\<close>: \<open>rooms[k]\<close> is a
  function or an object, hence truthy, for each of these keys \<open>k\<close> unless the table has
  an entry of its own under \<open>k\<close>.
\<close>

definition object_prototype_names :: "string list" where
  "object_prototype_names =
     [''constructor'', ''hasOwnProperty'', ''isPrototypeOf'', ''propertyIsEnumerable'',
      ''toLocaleString'', ''toString'', ''valueOf'', ''__proto__'',
      ''__defineGetter__'', ''__defineSetter__'', ''__lookupGetter__'', ''__lookupSetter__'']"

datatype 'a lookup = Undefined | Inherited | Own 'a

definition get_room :: "'s state \<Rightarrow> roomId \<Rightarrow> 's room lookup" where
  "get_room s roomId =
     (case map_of (rooms s) roomId of
        Some room \<Rightarrow> Own room
      | None \<Rightarrow> if roomId \<in> set object_prototype_names then Inherited else Undefined)"

definition put_room :: "roomId \<Rightarrow> 's room \<Rightarrow> 's state \<Rightarrow> 's state" where
  "put_room roomId room s = s\<lparr>rooms := AList.update roomId room (rooms s)\<rparr>"

text \<open>
  Property enumeration (\<open>Object.entries(rooms)\<close>): the keys that are array indices come
  first, in ascending numeric order, then the other keys in insertion order.
\<close>

definition dec_value :: "string \<Rightarrow> nat" where
  "dec_value k = foldl (\<lambda>n c. 10 * n + (of_char c - 48)) 0 k"

definition is_array_index :: "string \<Rightarrow> bool" where
  "is_array_index k =
     (k \<noteq> [] \<and> list_all is_digit k \<and> (hd k \<noteq> CHR ''0'' \<or> k = ''0'') \<and>
      dec_value k < 4294967295)"

definition own_entries :: "(string \<times> 'a) list \<Rightarrow> (string \<times> 'a) list" where
  "own_entries al =
     sort_key (\<lambda>e. dec_value (fst e)) (filter (\<lambda>e. is_array_index (fst e)) al) @
     filter (\<lambda>e. \<not> is_array_index (fst e)) al"

subsection \<open>generateRoomId\<close>

definition chars :: string where
  "chars = ''ABCDEFGHJKMNPQRSTUVWXYZ23456789''"

text \<open>\<open>id += chars[k]\<close>; appending \<open>undefined\<close> would append its name.\<close>

definition append_char :: "string \<Rightarrow> char option \<Rightarrow> string" where
  "append_char ident c = ident @ (case c of Some x \<Rightarrow> [x] | None \<Rightarrow> ''undefined'')"

text \<open>
  The argument holds the four values of \<open>Math.floor(Math.random() * chars.length)\<close>, in
  the order the loop draws them (each is below 31 in the program).
\<close>

fun generateRoomId :: "nat \<times> nat \<times> nat \<times> nat \<Rightarrow> roomId" where
  "generateRoomId (a, b, c, d) =
     foldl (\<lambda>ident k. append_char ident (char_at chars k)) [] [a, b, c, d]"

subsection \<open>Turn timer\<close>

definition clearTimeout :: "timer_id \<Rightarrow> 's state \<Rightarrow> 's state" where
  "clearTimeout t s = s\<lparr>timeouts := filter (\<lambda>p. fst p \<noteq> t) (timeouts s)\<rparr>"

text \<open>
  startTurnTimer: return when the room is unknown; stop the old timer if there is one;
  schedule the callback and store its identity in the room. No caller reaches the
  \<open>Inherited\<close> case (each has just found an own room under the id); there the program
  would schedule the callback and store the identity on the built-in object, which is
  not part of the room table.
\<close>

definition startTurnTimer :: "jsval \<Rightarrow> 's state \<Rightarrow> error + 's state" where
  "startTurnTimer roomId s =
     (case to_string roomId of
        Inl e \<Rightarrow> Inl e
      | Inr key \<Rightarrow>
          Inr (case get_room s key of
                 Undefined \<Rightarrow> s
               | Inherited \<Rightarrow>
                   s\<lparr>timeouts := timeouts s @ [(nextTimer s, roomId)],
                     nextTimer := Suc (nextTimer s)\<rparr>
               | Own room \<Rightarrow>
                   (let s1 = (case turnTimer room of
                                Some t \<Rightarrow> clearTimeout t s
                              | None \<Rightarrow> s);
                        t' = nextTimer s1;
                        s2 = s1\<lparr>timeouts := timeouts s1 @ [(t', roomId)],
                                nextTimer := Suc t'\<rparr>
                    in put_room key (room\<lparr>turnTimer := Some t'\<rparr>) s2)))"

definition clearTurnTimer :: "jsval \<Rightarrow> 's state \<Rightarrow> error + 's state" where
  "clearTurnTimer roomId s =
     (case to_string roomId of
        Inl e \<Rightarrow> Inl e
      | Inr key \<Rightarrow>
          Inr (case get_room s key of
                 Own room \<Rightarrow>
                   (case turnTimer room of
                      Some t \<Rightarrow> put_room key (room\<lparr>turnTimer := None\<rparr>) (clearTimeout t s)
                    | None \<Rightarrow> s)
               | _ \<Rightarrow> s))"

text \<open>The callback of the timeout scheduled by startTurnTimer.\<close>

definition turnTimeout :: "jsval \<Rightarrow> 's state \<Rightarrow> 's outcome" where
  "turnTimeout roomId s =
     (case to_string roomId of
        Inl e \<Rightarrow> Thrown e s []
      | Inr key \<Rightarrow>
          (case get_room s key of
             Own r \<Rightarrow>
               if \<not> started r \<or> winner r \<noteq> None then Done s []
               else
                 (let expiredPlayerId = elem_at (turnOrder r) 0;
                      nextPlayerId = elem_at (turnOrder r) 1;
                      s1 = put_room key (r\<lparr>turnOrder := [nextPlayerId, expiredPlayerId]\<rparr>) s;
                      out = [RoomEmit roomId (TurnTimeout roomId expiredPlayerId nextPlayerId)]
                  in case startTurnTimer roomId s1 of
                       Inl e \<Rightarrow> Thrown e s1 out
                     | Inr s2 \<Rightarrow> Done s2 out)
           | _ \<Rightarrow> Done s []))"

text \<open>
  A pending timeout fires: it leaves the pending set and its callback runs. A timeout
  that is not pending (cleared, or fired before) never fires.
\<close>

definition timerExpiry :: "timer_id \<Rightarrow> 's state \<Rightarrow> 's outcome" where
  "timerExpiry t s =
     (case map_of (timeouts s) t of
        None \<Rightarrow> Done s []
      | Some roomId \<Rightarrow> turnTimeout roomId (clearTimeout t s))"

subsection \<open>Socket handlers\<close>

definition new_player :: "jsval \<Rightarrow> player" where
  "new_player nm = \<lparr>name = nm, secret = JStr [], ready = False\<rparr>"

definition createRoom ::
  "'s \<Rightarrow> jsval \<Rightarrow> int option \<Rightarrow> nat \<times> nat \<times> nat \<times> nat \<Rightarrow> 's state \<Rightarrow> 's outcome" where
  "createRoom sid nm cl rnd s =
     (let roomId = generateRoomId rnd;
          room = \<lparr>players = [],
                  codeLength = (case cl of None \<Rightarrow> 3 | Some n \<Rightarrow> if n = 0 then 3 else n),
                  started = False, turnOrder = [], winner = None, turnTimer = None\<rparr>;
          room1 = room\<lparr>players := AList.update sid (new_player nm) (players room)\<rparr>
      in Done (put_room roomId room1 s)
           [SocketJoin sid (JStr roomId),
            SocketEmit sid (RoomCreated roomId (codeLength room1))])"

definition joinRoom :: "'s \<Rightarrow> jsval \<Rightarrow> jsval \<Rightarrow> 's state \<Rightarrow> 's outcome" where
  "joinRoom sid nm roomId s =
     (case to_string roomId of
        Inl e \<Rightarrow> Thrown e s []
      | Inr key \<Rightarrow>
          (case get_room s key of
             Undefined \<Rightarrow> Done s [SocketEmit sid (ErrorMessage ''Raum nicht gefunden.'')]
           | Inherited \<Rightarrow> Thrown TypeError s []
           | Own room \<Rightarrow>
               if length (players room) \<ge> 2
               then Done s [SocketEmit sid (ErrorMessage ''Raum ist voll.'')]
               else
                 (let room1 = room\<lparr>players :=
                                AList.update sid (new_player nm) (players room)\<rparr>
                  in Done (put_room key room1 s)
                       [SocketJoin sid roomId,
                        RoomEmit roomId
                          (RoomJoined roomId (codeLength room1)
                             (map (\<lambda>e. (fst e, name (snd e))) (players room1)))])))"

text \<open>
  setSecret reads \<open>secret.length\<close> first and applies the regular expression only when
  the length is \<open>codeLength\<close>.
\<close>

definition setSecret :: "'s \<Rightarrow> jsval \<Rightarrow> jsval \<Rightarrow> bool \<Rightarrow> 's state \<Rightarrow> 's outcome" where
  "setSecret sid roomId sec coin s =
     (case to_string roomId of
        Inl e \<Rightarrow> Thrown e s []
      | Inr key \<Rightarrow>
          (case get_room s key of
             Undefined \<Rightarrow> Done s []
           | Inherited \<Rightarrow> Thrown TypeError s []
           | Own room \<Rightarrow>
               (case map_of (players room) sid of
                  None \<Rightarrow> Done s []
                | Some p \<Rightarrow>
                    (case length_equals sec (codeLength room) of
                       Inl e \<Rightarrow> Thrown e s []
                     | Inr same \<Rightarrow>
                         if \<not> same then Done s []
                         else
                           (case test_digits sec of
                              Inl e \<Rightarrow> Thrown e s []
                            | Inr digits \<Rightarrow>
                                if \<not> digits then Done s []
                                else
                                  (let p1 = p\<lparr>secret := sec, ready := True\<rparr>;
                                       room1 = room\<lparr>players :=
                                                 AList.update sid p1 (players room)\<rparr>;
                                       allReady =
                                         (length (players room1) = 2 \<and>
                                          list_all (\<lambda>e. ready (snd e)) (players room1));
                                       out1 = [RoomEmit roomId
                                                 (PlayerReady sid (name p1) allReady)]
                                   in if allReady \<and> \<not> started room1 then
                                        (let ids = map fst (players room1);
                                             order =
                                               (if coin then [key_at ids 0, key_at ids 1]
                                                else [key_at ids 1, key_at ids 0]);
                                             room2 = room1\<lparr>started := True,
                                                       turnOrder := order\<rparr>;
                                             first = elem_at order 0;
                                             s2 = put_room key room2 s;
                                             out2 = out1 @
                                               [RoomEmit roomId (GameStarted roomId first)]
                                         in case startTurnTimer roomId s2 of
                                              Inl e \<Rightarrow> Thrown e s2 out2
                                            | Inr s3 \<Rightarrow> Done s3 out2)
                                      else Done (put_room key room1 s) out1))))))"

text \<open>
  The scoring loop of the guess handler, \<open>for (let i = 0; i < room.codeLength; i++)\<close>,
  with its test \<open>value[i] === opponent.secret[i]\<close>: reading \<open>opponent.secret\<close> throws
  when \<open>opponent\<close> is \<open>undefined\<close>.
\<close>

function count_correct ::
  "jsval \<Rightarrow> player option \<Rightarrow> int \<Rightarrow> nat \<Rightarrow> nat \<Rightarrow> error + nat" where
  "count_correct v opponent n i correct =
     (if int i < n then
        (case js_index v i of
           Inl e \<Rightarrow> Inl e
         | Inr a \<Rightarrow>
             (case opponent of
                None \<Rightarrow> Inl TypeError
              | Some p \<Rightarrow>
                  (case js_index (secret p) i of
                     Inl e \<Rightarrow> Inl e
                   | Inr b \<Rightarrow>
                       count_correct v opponent n (Suc i)
                         (if strict_eq a b then Suc correct else correct))))
      else Inr correct)"
  by pat_completeness auto
termination
  by (relation "measure (\<lambda>(v, opponent, n, i, correct). nat (n - int i))") auto

declare count_correct.simps [simp del]

text \<open>
  The guess handler applies the regular expression first and reads \<open>value.length\<close> only
  when it matched.
\<close>

definition guess :: "'s \<Rightarrow> jsval \<Rightarrow> jsval \<Rightarrow> 's state \<Rightarrow> 's outcome" where
  "guess sid roomId v s =
     (case to_string roomId of
        Inl e \<Rightarrow> Thrown e s []
      | Inr key \<Rightarrow>
          (case get_room s key of
             Own room \<Rightarrow>
               if \<not> started room then Done s []
               else
                 (case test_digits v of
                    Inl e \<Rightarrow> Thrown e s []
                  | Inr digits \<Rightarrow>
                      if \<not> digits then Done s []
                      else
                        (case length_equals v (codeLength room) of
                           Inl e \<Rightarrow> Thrown e s []
                         | Inr same \<Rightarrow>
                             if \<not> same then Done s []
                             else if indexOf (turnOrder room) (Some sid) \<noteq> 0
                             then Done s
                                    [SocketEmit sid (ErrorMessage ''Du bist nicht am Zug.'')]
                             else
                               (let opponentId = elem_at (turnOrder room) 1;
                                    opponent =
                                      (case opponentId of
                                         None \<Rightarrow> None
                                       | Some oid \<Rightarrow> map_of (players room) oid)
                                in case count_correct v opponent (codeLength room) 0 0 of
                                     Inl e \<Rightarrow> Thrown e s []
                                   | Inr correct \<Rightarrow>
                                       (let out1 = [RoomEmit roomId
                                                      (GuessResult sid v correct)]
                                        in if int correct = codeLength room then
                                             (let s1 = put_room key
                                                         (room\<lparr>winner := Some sid\<rparr>) s
                                              in case (map_of (players room) sid, opponent) of
                                                   (Some me, Some opp) \<Rightarrow>
                                                     (let out2 = out1 @
                                                        [RoomEmit roomId
                                                           (GameOver sid (name me)
                                                              opponentId (name opp))]
                                                      in case clearTurnTimer roomId s1 of
                                                           Inl e \<Rightarrow> Thrown e s1 out2
                                                         | Inr s2 \<Rightarrow> Done s2 out2)
                                                 | _ \<Rightarrow> Thrown TypeError s1 out1)
                                           else
                                             (let s1 = put_room key
                                                         (room\<lparr>turnOrder :=
                                                            [opponentId, Some sid]\<rparr>) s;
                                                  out2 = out1 @
                                                    [RoomEmit roomId
                                                       (TurnChanged roomId opponentId)]
                                              in case startTurnTimer roomId s1 of
                                                   Inl e \<Rightarrow> Thrown e s1 out2
                                                 | Inr s2 \<Rightarrow> Done s2 out2)))))
           | _ \<Rightarrow> Done s []))"

definition skipTurn :: "'s \<Rightarrow> jsval \<Rightarrow> 's state \<Rightarrow> 's outcome" where
  "skipTurn sid roomId s =
     (case to_string roomId of
        Inl e \<Rightarrow> Thrown e s []
      | Inr key \<Rightarrow>
          (case get_room s key of
             Own room \<Rightarrow>
               if \<not> started room then Done s []
               else if elem_at (turnOrder room) 0 \<noteq> Some sid then Done s []
               else
                 (let current = elem_at (turnOrder room) 0;
                      next = elem_at (turnOrder room) 1
                  in Done (put_room key (room\<lparr>turnOrder := [next, current]\<rparr>) s)
                       [RoomEmit roomId (TurnSkipped current next)])
           | _ \<Rightarrow> Done s []))"

text \<open>
  The disconnect handler walks the keys of \<open>rooms\<close> as they were when the loop began.
  The \<open>room\<close> of an entry is a reference to the room object, so an iteration reads the
  room as it is now; a room is deleted by its own iteration only, so the entry is still
  there when its turn comes (the \<open>None\<close> case is for totality).
\<close>

fun disconnect_loop ::
  "'s \<Rightarrow> roomId list \<Rightarrow> 's state \<Rightarrow> 's effect list \<Rightarrow> 's outcome" where
  "disconnect_loop sid [] s out = Done s out"
| "disconnect_loop sid (roomId # ids) s out =
     (case map_of (rooms s) roomId of
        None \<Rightarrow> disconnect_loop sid ids s out
      | Some room \<Rightarrow>
          if map_of (players room) sid \<noteq> None then
            (let room1 = room\<lparr>players := AList.delete sid (players room)\<rparr>;
                 s1 = put_room roomId room1 s;
                 out1 = out @ [RoomEmit (JStr roomId) (OpponentLeft sid)]
             in if length (players room1) = 0 then
                  (case clearTurnTimer (JStr roomId) s1 of
                     Inl e \<Rightarrow> Thrown e s1 out1
                   | Inr s' \<Rightarrow>
                       disconnect_loop sid ids
                         (s'\<lparr>rooms := AList.delete roomId (rooms s')\<rparr>) out1)
                else disconnect_loop sid ids s1 out1)
          else disconnect_loop sid ids s out)"

definition disconnect :: "'s \<Rightarrow> 's state \<Rightarrow> 's outcome" where
  "disconnect sid s = disconnect_loop sid (map fst (own_entries (rooms s))) s []"

subsection \<open>Events and runs\<close>

datatype 's event =
    CreateRoom 's jsval "int option" "nat \<times> nat \<times> nat \<times> nat"
  | JoinRoom 's jsval jsval
  | SetSecret 's jsval jsval bool
  | Guess 's jsval jsval
  | SkipTurn 's jsval
  | Disconnect 's
  | TimerExpiry timer_id

fun on_event :: "'s event \<Rightarrow> 's state \<Rightarrow> 's outcome" where
  "on_event (CreateRoom sid nm cl rnd) s = createRoom sid nm cl rnd s"
| "on_event (JoinRoom sid nm roomId) s = joinRoom sid nm roomId s"
| "on_event (SetSecret sid roomId sec coin) s = setSecret sid roomId sec coin s"
| "on_event (Guess sid roomId v) s = guess sid roomId v s"
| "on_event (SkipTurn sid roomId) s = skipTurn sid roomId s"
| "on_event (Disconnect sid) s = disconnect sid s"
| "on_event (TimerExpiry t) s = timerExpiry t s"

text \<open>
  A run handles the events one after the other. The program installs no handler for
  uncaught exceptions, so a run ends at the first handler that throws.
\<close>

fun run :: "'s state \<Rightarrow> 's event list \<Rightarrow> 's outcome" where
  "run s [] = Done s []"
| "run s (e # es) =
     (case on_event e s of
        Done s1 out1 \<Rightarrow>
          (case run s1 es of
             Done s2 out2 \<Rightarrow> Done s2 (out1 @ out2)
           | Thrown x s2 out2 \<Rightarrow> Thrown x s2 (out1 @ out2))
      | Thrown x s1 out1 \<Rightarrow> Thrown x s1 out1)"

definition init :: "'s state" where
  "init = \<lparr>rooms = [], timeouts = [], nextTimer = 0\<rparr>"

subsection \<open>Phases\<close>

datatype phase = Lobby | Active | Finished

definition phase_of :: "'s room \<Rightarrow> phase" where
  "phase_of r = (if \<not> started r then Lobby else if winner r = None then Active else Finished)"

primrec phase_rank :: "phase \<Rightarrow> nat" where
  "phase_rank Lobby = 0"
| "phase_rank Active = 1"
| "phase_rank Finished = 2"

text \<open>
  The live timers of a room: the pending timeouts whose callback looks up the room
  registered under the key.
\<close>

definition live_timers :: "'s state \<Rightarrow> roomId \<Rightarrow> timer_id list" where
  "live_timers s key = map fst (filter (\<lambda>p. to_string (snd p) = Inr key) (timeouts s))"

text \<open>
  The room id a createRoom event registers its new room under; an event that creates
  a room under the id of a registered room replaces that room by a new one.
\<close>

fun created_id :: "'s event \<Rightarrow> roomId option" where
  "created_id (CreateRoom sid nm cl rnd) = Some (generateRoomId rnd)"
| "created_id e = None"

subsection \<open>Example runs\<close>

text \<open>
  Anna (socket \<open>s1\<close>) creates room ABCD with the default code length, Ben (socket
  \<open>s2\<close>) joins, Anna commits 123 and Ben 456; the coin makes Anna the first to guess.
\<close>

definition lobby_events :: "string event list" where
  "lobby_events =
     [CreateRoom ''s1'' (JStr ''Anna'') None (0, 1, 2, 3),
      JoinRoom ''s2'' (JStr ''Ben'') (JStr ''ABCD'')]"

definition start_events :: "string event list" where
  "start_events =
     lobby_events @
     [SetSecret ''s1'' (JStr ''ABCD'') (JStr ''123'') True,
      SetSecret ''s2'' (JStr ''ABCD'') (JStr ''456'') True]"

definition lobby_state :: "string state" where
  "lobby_state = state_of (run init lobby_events)"

definition active_state :: "string state" where
  "active_state = state_of (run init start_events)"

definition active_room :: "string room" where
  "active_room =
     \<lparr>players = [(''s1'', \<lparr>name = JStr ''Anna'', secret = JStr ''123'', ready = True\<rparr>),
                 (''s2'', \<lparr>name = JStr ''Ben'', secret = JStr ''456'', ready = True\<rparr>)],
      codeLength = 3, started = True, turnOrder = [Some ''s1'', Some ''s2''],
      winner = None, turnTimer = Some 0\<rparr>"

definition lobby_room :: "string room" where
  "lobby_room =
     \<lparr>players = [(''s1'', \<lparr>name = JStr ''Anna'', secret = JStr [], ready = False\<rparr>),
                 (''s2'', \<lparr>name = JStr ''Ben'', secret = JStr [], ready = False\<rparr>)],
      codeLength = 3, started = False, turnOrder = [],
      winner = None, turnTimer = None\<rparr>"

text \<open>Anna guesses Ben's code at once.\<close>

definition won_events :: "string event list" where
  "won_events = start_events @ [Guess ''s1'' (JStr ''ABCD'') (JStr ''456'')]"

definition play_events :: "string event list" where
  "play_events =
     [SetSecret ''s1'' (JStr ''ABCD'') (JStr ''123'') True,
      SetSecret ''s2'' (JStr ''ABCD'') (JStr ''456'') True,
      Guess ''s1'' (JStr ''ABCD'') (JStr ''456'')]"

definition won_state :: "string state" where
  "won_state = state_of (run init won_events)"

definition won_room :: "string room" where
  "won_room = active_room\<lparr>winner := Some ''s1'', turnTimer := None\<rparr>"

text \<open>Ben leaves the running game.\<close>

definition left_state :: "string state" where
  "left_state = state_of (run active_state [Disconnect ''s2''])"




subsection \<open>Specification vocabulary\<close>

text \<open>
  The score the specification asks for: the number of positions \<open>i\<close> below the length of
  the guess at which guess and secret hold the same character.
\<close>

definition matching_positions :: "string \<Rightarrow> string \<Rightarrow> nat" where
  "matching_positions v sec = length (filter (\<lambda>i. v ! i = sec ! i) [0..<length v])"

subsection \<open>Proof vocabulary\<close>

text \<open>
  \<open>later r r'\<close>: the flags the phase is read from have only been set, not reset.
  \<open>evolves roomId s s'\<close>: the room registered under \<open>roomId\<close> in \<open>s'\<close>, if any, is a later
  stage of the room registered under it in \<open>s\<close>.
\<close>

definition later :: "'s room \<Rightarrow> 's room \<Rightarrow> bool" where
  "later r r' = ((started r \<longrightarrow> started r') \<and> (winner r \<noteq> None \<longrightarrow> winner r' \<noteq> None))"

definition evolves :: "roomId \<Rightarrow> 's state \<Rightarrow> 's state \<Rightarrow> bool" where
  "evolves roomId s s' =
     (case map_of (rooms s') roomId of
        None \<Rightarrow> True
      | Some r' \<Rightarrow> (case map_of (rooms s) roomId of None \<Rightarrow> False | Some r \<Rightarrow> later r r'))"

section \<open>Properties\<close>

subsection \<open>Basic facts about the state operations\<close>

lemma indexOf_hd [simp]: "indexOf (x # xs) x = 0"
  by simp

lemma elem_at_simps [simp]:
  "elem_at (x # xs) 0 = x" "elem_at (x # y # xs) (Suc 0) = y" "elem_at [] i = None"
  by (simp_all add: elem_at_def)

lemma map_of_put_room [simp]:
  "map_of (rooms (put_room rid r s)) = (map_of (rooms s))(rid \<mapsto> r)"
  by (simp add: put_room_def update_conv')

lemma timeouts_put_room [simp]: "timeouts (put_room rid r s) = timeouts s"
  by (simp add: put_room_def)

lemma nextTimer_put_room [simp]: "nextTimer (put_room rid r s) = nextTimer s"
  by (simp add: put_room_def)

lemma rooms_clearTimeout [simp]: "rooms (clearTimeout t s) = rooms s"
  by (simp add: clearTimeout_def)

lemma get_room_OwnD: "get_room s rid = Own r \<Longrightarrow> map_of (rooms s) rid = Some r"
  by (simp add: get_room_def split: option.splits if_splits)

lemma get_room_put_room [simp]: "get_room (put_room rid r s) rid = Own r"
  by (simp add: get_room_def)

lemma get_room_clearTimeout [simp]: "get_room (clearTimeout t s) rid = get_room s rid"
  by (simp add: get_room_def)

lemma put_room_twice [simp]: "put_room rid r (put_room rid r' s) = put_room rid r s"
  by (simp add: put_room_def)

lemma clearTimeout_put_room: "clearTimeout t (put_room rid r s) = put_room rid r (clearTimeout t s)"
  by (simp add: put_room_def clearTimeout_def)

text \<open>
  A generated room id never names a member of \<open>Object.prototype\<close>: it starts with a
  character of \<open>chars\<close>. So \<open>rooms[roomId] = {...}\<close> in createRoom writes an own entry.
\<close>

lemma hd_generateRoomId:
  "hd (generateRoomId (a, b, c, d)) = (if a < length chars then chars ! a else CHR ''u'')"
  by (simp add: append_char_def char_at_def)

lemma generateRoomId_own_key: "generateRoomId rnd \<notin> set object_prototype_names"
proof
  obtain a b c d where rnd: "rnd = (a, b, c, d)"
    by (cases rnd) auto
  assume "generateRoomId rnd \<in> set object_prototype_names"
  then have "hd (generateRoomId rnd) \<in> hd ` set object_prototype_names"
    by (rule imageI)
  then have h: "hd (generateRoomId rnd) \<in> set ''chiptv_''"
    by (simp add: object_prototype_names_def)
  show False
  proof (cases "a < length chars")
    case True
    then have "chars ! a \<in> set chars"
      by (rule nth_mem)
    with h True show False
      by (simp only: rnd hd_generateRoomId if_True) (auto simp: chars_def)
  next
    case False
    with h show False
      by (simp only: rnd hd_generateRoomId if_False) simp
  qed
qed

text \<open>
  Conversions that throw. A missing secret, or an object with an own \<open>toString\<close>
  member and the right \<open>length\<close>, makes setSecret throw for a player of the room; an
  object with an own \<open>toString\<close> member makes the guess handler throw as a value and
  every handler throw as a room id.
\<close>

lemma conversions_that_throw:
  "setSecret ''s1'' (JStr ''ABCD'') JUndefined True lobby_state = Thrown TypeError lobby_state []"
  "setSecret ''s1'' (JStr ''ABCD'') JNull True lobby_state = Thrown TypeError lobby_state []"
  "setSecret ''s1'' (JStr ''ABCD'') (JObj [(''length'', JNum ''3''), (''toString'', JNum ''1'')])
     True lobby_state = Thrown TypeError lobby_state []"
  "guess ''s1'' (JStr ''ABCD'') (JObj [(''toString'', JNum ''1'')]) active_state =
     Thrown TypeError active_state []"
  "skipTurn ''s1'' (JObj [(''toString'', JNum ''1'')]) active_state =
     Thrown TypeError active_state []"
  by code_simp+

text \<open>
  startTurnTimer and clearTurnTimer on a registered room, once the room value has been
  converted to its key.
\<close>

lemma startTurnTimer_Own:
  assumes "to_string roomId = Inr key" and "get_room s key = Own r"
  shows "startTurnTimer roomId s =
           Inr (put_room key (r\<lparr>turnTimer := Some (nextTimer s)\<rparr>)
                  (s\<lparr>timeouts := filter (\<lambda>p. Some (fst p) \<noteq> turnTimer r) (timeouts s) @
                                  [(nextTimer s, roomId)],
                     nextTimer := Suc (nextTimer s)\<rparr>))"
  using assms
  by (cases "turnTimer r") (simp_all add: startTurnTimer_def Let_def clearTimeout_def)

lemma clearTurnTimer_Own:
  assumes "to_string roomId = Inr key" and "get_room s key = Own r"
  shows "clearTurnTimer roomId s =
           Inr (case turnTimer r of
                  None \<Rightarrow> s
                | Some t \<Rightarrow> put_room key (r\<lparr>turnTimer := None\<rparr>) (clearTimeout t s))"
  using assms by (simp add: clearTurnTimer_def split: option.splits)


subsection \<open>Phase monotonicity\<close>

lemma later_refl [simp]: "later r r"
  by (simp add: later_def)

lemma later_trans: "later a b \<Longrightarrow> later b c \<Longrightarrow> later a c"
  by (auto simp: later_def)

lemma evolves_refl [simp]: "evolves rid s s"
  by (simp add: evolves_def split: option.splits)

lemma evolves_trans: "evolves rid a b \<Longrightarrow> evolves rid b c \<Longrightarrow> evolves rid a c"
  by (auto simp: evolves_def split: option.splits intro: later_trans)

lemma evolves_rooms_eq: "map_of (rooms s') rid = map_of (rooms s) rid \<Longrightarrow> evolves rid s s'"
  by (simp add: evolves_def split: option.splits)

lemma evolves_put_room:
  "get_room s rid' = Own r \<Longrightarrow> later r r1 \<Longrightarrow> evolves rid s (put_room rid' r1 s)"
  by (drule get_room_OwnD) (simp add: evolves_def split: option.splits)

lemma evolves_put_other: "rid' \<noteq> rid \<Longrightarrow> evolves rid s (put_room rid' r1 s)"
  by (simp add: evolves_def split: option.splits)

lemma evolves_delete: "evolves rid s (s\<lparr>rooms := AList.delete rid' (rooms s)\<rparr>)"
  by (simp add: evolves_def delete_conv' split: option.splits)

lemma evolves_clearTimeout: "evolves rid s (clearTimeout t s)"
  by (simp add: evolves_rooms_eq)

lemma evolves_startTurnTimer: "startTurnTimer roomId s = Inr s' \<Longrightarrow> evolves rid s s'"
  by (auto simp: startTurnTimer_def get_room_def evolves_def later_def Let_def
      split: option.splits lookup.splits sum.splits if_splits)

lemma evolves_clearTurnTimer: "clearTurnTimer roomId s = Inr s' \<Longrightarrow> evolves rid s s'"
  by (auto simp: clearTurnTimer_def get_room_def evolves_def later_def Let_def
      split: option.splits lookup.splits sum.splits if_splits)

lemma evolves_put_start:
  "startTurnTimer roomId (put_room rid' r1 s) = Inr s' \<Longrightarrow> get_room s rid' = Own r \<Longrightarrow>
   later r r1 \<Longrightarrow> evolves rid s s'"
  by (rule evolves_trans [OF evolves_put_room evolves_startTurnTimer])

lemma evolves_put_clear:
  "clearTurnTimer roomId (put_room rid' r1 s) = Inr s' \<Longrightarrow> get_room s rid' = Own r \<Longrightarrow>
   later r r1 \<Longrightarrow> evolves rid s s'"
  by (rule evolves_trans [OF evolves_put_room evolves_clearTurnTimer])

lemma evolves_createRoom:
  "generateRoomId rnd \<noteq> rid \<Longrightarrow> evolves rid s (state_of (createRoom sid nm cl rnd s))"
  by (simp add: createRoom_def Let_def evolves_put_other)

lemma evolves_joinRoom: "evolves rid s (state_of (joinRoom sid nm roomId s))"
  by (auto simp: joinRoom_def Let_def evolves_put_room later_def
      split: sum.splits lookup.splits)

lemma evolves_setSecret: "evolves rid s (state_of (setSecret sid roomId sec coin s))"
  by (auto simp: setSecret_def Let_def evolves_put_room later_def
      split: sum.splits lookup.splits option.splits
      intro: evolves_put_start)

lemma evolves_skipTurn: "evolves rid s (state_of (skipTurn sid roomId s))"
  by (auto simp: skipTurn_def Let_def evolves_put_room later_def
      split: sum.splits lookup.splits)

lemma evolves_guess: "evolves rid s (state_of (guess sid roomId v s))"
  by (auto simp: guess_def Let_def evolves_put_room later_def
      split: sum.splits lookup.splits option.splits
      intro: evolves_put_start evolves_put_clear)

lemma evolves_turnTimeout: "evolves rid s (state_of (turnTimeout roomId s))"
  by (auto simp: turnTimeout_def Let_def evolves_put_room later_def
      split: sum.splits lookup.splits
      intro: evolves_put_start)

lemma evolves_timerExpiry: "evolves rid s (state_of (timerExpiry t s))"
  by (auto simp: timerExpiry_def split: option.splits
      intro: evolves_trans [OF evolves_clearTimeout evolves_turnTimeout])

lemma evolves_disconnect_loop:
  "evolves rid s (state_of (disconnect_loop sid ids s out))"
proof (induction ids arbitrary: s out)
  case Nil
  show ?case by simp
next
  case (Cons roomId ids)
  show ?case
  proof (cases "map_of (rooms s) roomId")
    case None
    then show ?thesis using Cons.IH by simp
  next
    case (Some room)
    show ?thesis
    proof (cases "map_of (players room) sid = None")
      case True
      then show ?thesis using Some Cons.IH by simp
    next
      case False
      let ?room1 = "room\<lparr>players := AList.delete sid (players room)\<rparr>"
      let ?s1 = "put_room roomId ?room1 s"
      let ?out1 = "out @ [RoomEmit (JStr roomId) (OpponentLeft sid)]"
      have 1: "evolves rid s ?s1"
        using Some by (simp add: evolves_def later_def split: option.splits)
      show ?thesis
      proof (cases "length (players ?room1) = 0")
        case False
        then have "disconnect_loop sid (roomId # ids) s out = disconnect_loop sid ids ?s1 ?out1"
          using Some \<open>map_of (players room) sid \<noteq> None\<close> by (simp add: Let_def)
        then show ?thesis
          using evolves_trans [OF 1 Cons.IH [of ?s1 ?out1]] by simp
      next
        case True
        show ?thesis
        proof (cases "clearTurnTimer (JStr roomId) ?s1")
          case (Inl e)
          then have "disconnect_loop sid (roomId # ids) s out = Thrown e ?s1 ?out1"
            using Some True \<open>map_of (players room) sid \<noteq> None\<close> by (simp add: Let_def)
          then show ?thesis using 1 by simp
        next
          case (Inr s')
          let ?s2 = "s'\<lparr>rooms := AList.delete roomId (rooms s')\<rparr>"
          have 2: "evolves rid ?s1 ?s2"
            by (rule evolves_trans [OF evolves_clearTurnTimer [OF Inr] evolves_delete])
          have "disconnect_loop sid (roomId # ids) s out = disconnect_loop sid ids ?s2 ?out1"
            using Some True Inr \<open>map_of (players room) sid \<noteq> None\<close> by (simp add: Let_def)
          then show ?thesis
            using evolves_trans [OF evolves_trans [OF 1 2] Cons.IH [of ?s2 ?out1]] by simp
        qed
      qed
    qed
  qed
qed

lemma evolves_disconnect: "evolves rid s (state_of (disconnect sid s))"
  by (simp add: disconnect_def evolves_disconnect_loop)

lemma evolves_on_event:
  "created_id e \<noteq> Some rid \<Longrightarrow> evolves rid s (state_of (on_event e s))"
  by (cases e)
     (simp_all add: evolves_createRoom evolves_joinRoom evolves_setSecret evolves_guess
        evolves_skipTurn evolves_disconnect evolves_timerExpiry)

lemma state_of_run_Cons:
  "state_of (run s (e # es)) =
     (if threw (on_event e s) then state_of (on_event e s)
      else state_of (run (state_of (on_event e s)) es))"
  by (simp split: outcome.splits)

lemma evolves_run:
  "\<forall>e\<in>set es. created_id e \<noteq> Some rid \<Longrightarrow> evolves rid s (state_of (run s es))"
proof (induction es arbitrary: s)
  case Nil
  show ?case by simp
next
  case (Cons e es)
  have 1: "evolves rid s (state_of (on_event e s))"
    using Cons.prems by (simp add: evolves_on_event)
  have 2: "evolves rid (state_of (on_event e s)) (state_of (run (state_of (on_event e s)) es))"
    using Cons.prems by (intro Cons.IH) simp
  show ?case
    using 1 evolves_trans [OF 1 2] by (simp only: state_of_run_Cons split: if_splits) simp
qed

lemma later_phase: "later r r' \<Longrightarrow> phase_rank (phase_of r) \<le> phase_rank (phase_of r')"
  by (auto simp: later_def phase_of_def)

text \<open>
  C8 (phase monotonicity), as the code has it. Follow the session registered under a
  room id through any run in which no createRoom draws that id again: if the session
  exists before and after the run, its phase has not moved backwards in the order
  Lobby, Active, Finished; \<open>started\<close> is never reset and \<open>winner\<close> is never cleared.
  A createRoom leaves a room in the lobby under the id it draws, whatever was
  registered there.
\<close>

theorem phase_monotone:
  assumes "\<forall>e\<in>set es. created_id e \<noteq> Some roomId"
    and "map_of (rooms s) roomId = Some r"
    and "map_of (rooms (state_of (run s es))) roomId = Some r'"
  shows "phase_rank (phase_of r) \<le> phase_rank (phase_of r') \<and>
         (started r \<longrightarrow> started r') \<and> (winner r \<noteq> None \<longrightarrow> winner r' \<noteq> None) \<and>
         map_option phase_of
           (map_of (rooms (state_of (createRoom sid nm cl rnd s0))) (generateRoomId rnd)) =
           Some Lobby"
proof -
  have "later r r'"
    using evolves_run [OF assms(1), of s] assms(2,3) by (simp add: evolves_def)
  moreover have "map_option phase_of
      (map_of (rooms (state_of (createRoom sid nm cl rnd s0))) (generateRoomId rnd)) = Some Lobby"
    by (simp add: createRoom_def Let_def phase_of_def)
  ultimately show ?thesis
    using later_phase [of r r'] by (simp add: later_def)
qed

text \<open>The example game, from the lobby to Anna's win.\<close>

theorem phase_monotone_witness:
  "list_all (\<lambda>e. created_id e \<noteq> Some ''ABCD'') play_events \<and>
   map_of (rooms lobby_state) ''ABCD'' = Some lobby_room \<and>
   map_of (rooms (state_of (run lobby_state play_events))) ''ABCD'' = Some won_room \<and>
   phase_of lobby_room = Lobby \<and> phase_of won_room = Finished \<and>
   phase_rank (phase_of lobby_room) \<le> phase_rank (phase_of won_room)"
proof -
  have 1: "\<forall>e\<in>set play_events. created_id e \<noteq> Some ''ABCD''"
    by code_simp
  have 2: "map_of (rooms lobby_state) ''ABCD'' = Some lobby_room"
    by code_simp
  have 3: "map_of (rooms (state_of (run lobby_state play_events))) ''ABCD'' = Some won_room"
    by code_simp
  have 4: "phase_of lobby_room = Lobby" "phase_of won_room = Finished"
    by code_simp+
  from phase_monotone [OF 1 2 3] 1 2 3 4 show ?thesis
    by (simp add: list_all_iff)
qed

text \<open>
  Without the proviso the claim fails: createRoom does not test the id it draws. When
  the draws give ABCD again, the running game registered under ABCD is replaced by a
  new room in the lobby.
\<close>

theorem createRoom_replaces_room_counterexample:
  "map_option phase_of (map_of (rooms active_state) ''ABCD'') = Some Active \<and>
   created_id (CreateRoom ''s3'' (JStr ''Cem'') None (0, 1, 2, 3)) = Some ''ABCD'' \<and>
   threw (run active_state [CreateRoom ''s3'' (JStr ''Cem'') None (0, 1, 2, 3)]) = False \<and>
   map_option phase_of
     (map_of (rooms (state_of
        (run active_state [CreateRoom ''s3'' (JStr ''Cem'') None (0, 1, 2, 3)]))) ''ABCD'') =
     Some Lobby"
  by code_simp


subsection \<open>The scoring loop\<close>

lemma strict_eq_chars:
  "strict_eq (if i < length v then JStr [v ! i] else JUndefined)
     (if i < length sec then JStr [sec ! i] else JUndefined) =
   (char_at v i = char_at sec i)"
  by (simp add: char_at_def)

lemma count_correct_strings:
  assumes "secret p = JStr sec"
  shows "count_correct (JStr v) (Some p) n i c =
           Inr (c + length (filter (\<lambda>j. char_at v j = char_at sec j) [i..<nat n]))"
proof (induction "nat n - i" arbitrary: i c)
  case 0
  then have "\<not> int i < n" by linarith
  then show ?case
    by (subst count_correct.simps) simp
next
  case (Suc k)
  then have lt: "int i < n" by linarith
  then have u: "[i..<nat n] = i # [Suc i..<nat n]"
    by (simp add: upt_conv_Cons)
  have k: "k = nat n - Suc i"
    using Suc.hyps(2) by simp
  have IH: "count_correct (JStr v) (Some p) n (Suc i) c' =
              Inr (c' + length (filter (\<lambda>j. char_at v j = char_at sec j) [Suc i..<nat n]))"
    for c'
    by (rule Suc.hyps(1) [OF k])
  show ?case
    by (subst count_correct.simps) (simp add: lt u assms IH strict_eq_chars)
qed

lemma count_correct_matching:
  assumes "length sec = length v" and "secret p = JStr sec"
  shows "count_correct (JStr v) (Some p) (int (length v)) 0 0 = Inr (matching_positions v sec)"
proof -
  have "filter (\<lambda>j. char_at v j = char_at sec j) [0..<length v] =
        filter (\<lambda>j. v ! j = sec ! j) [0..<length v]"
    using assms(1) by (intro filter_cong) (simp_all add: char_at_def)
  then show ?thesis
    using count_correct_strings [OF assms(2), of v "int (length v)" 0 0]
    by (simp add: matching_positions_def)
qed

subsection \<open>Guess scoring\<close>

text \<open>
  C7 (guess scoring), as the code has it. In an Active session in which both players of
  the turn order are present and the opponent's secret is a string of as many
  characters as the guess, a guess of exactly \<open>codeLength\<close> digits by the active player is
  answered with a \<open>guessResult\<close> whose score is the number of positions at which guess
  and secret agree. A full score makes the guesser the winner, broadcasts \<open>gameOver\<close>
  and stops the timer (the state \<open>s1\<close>); any other score hands the turn over and
  restarts the timer (the state \<open>s2\<close>). Against the secret 456 the guess 455 scores 2,
  the guess 654 scores 1 (the middle digit agrees) and the guess 456 scores 3.
\<close>

theorem guess_scoring:
  assumes "to_string roomId = Inr key" and "get_room s key = Own r"
    and "started r" and "winner r = None"
    and "all_digits v" and "int (length v) = codeLength r"
    and "turnOrder r = [Some sid, Some oid]"
    and "map_of (players r) sid = Some me"
    and "map_of (players r) oid = Some opp"
    and "secret opp = JStr sec" and "length sec = length v"
  shows "(\<exists>s1 s2.
            clearTurnTimer roomId (put_room key (r\<lparr>winner := Some sid\<rparr>) s) = Inr s1 \<and>
            startTurnTimer roomId
              (put_room key (r\<lparr>turnOrder := [Some oid, Some sid]\<rparr>) s) = Inr s2 \<and>
            guess sid roomId (JStr v) s =
              (if matching_positions v sec = length v
               then Done s1
                      [RoomEmit roomId (GuessResult sid (JStr v) (matching_positions v sec)),
                       RoomEmit roomId (GameOver sid (name me) (Some oid) (name opp))]
               else Done s2
                      [RoomEmit roomId (GuessResult sid (JStr v) (matching_positions v sec)),
                       RoomEmit roomId (TurnChanged roomId (Some oid))])) \<and>
         matching_positions ''455'' ''456'' = 2 \<and>
         matching_positions ''654'' ''456'' = 1 \<and>
         matching_positions ''456'' ''456'' = 3"
proof -
  have c: "count_correct (JStr v) (Some opp) (codeLength r) 0 0 = Inr (matching_positions v sec)"
    using count_correct_matching [OF assms(11,10)] assms(6) by simp
  have m: "matching_positions ''455'' ''456'' = 2" "matching_positions ''654'' ''456'' = 1"
    "matching_positions ''456'' ''456'' = 3"
    by code_simp+
  obtain s1 where s1: "clearTurnTimer roomId (put_room key (r\<lparr>winner := Some sid\<rparr>) s) = Inr s1"
    using assms(1) by (simp add: clearTurnTimer_def)
  obtain s2 where s2: "startTurnTimer roomId
      (put_room key (r\<lparr>turnOrder := [Some oid, Some sid]\<rparr>) s) = Inr s2"
    using assms(1) by (simp add: startTurnTimer_def)
  have "guess sid roomId (JStr v) s =
          (if matching_positions v sec = length v
           then Done s1
                  [RoomEmit roomId (GuessResult sid (JStr v) (matching_positions v sec)),
                   RoomEmit roomId (GameOver sid (name me) (Some oid) (name opp))]
           else Done s2
                  [RoomEmit roomId (GuessResult sid (JStr v) (matching_positions v sec)),
                   RoomEmit roomId (TurnChanged roomId (Some oid))])"
    using assms(1-9) c s1 s2 by (simp add: guess_def test_digits_def Let_def)
  with s1 s2 m show ?thesis by blast
qed

text \<open>Two guesses of the specification, made by Anna against Ben's 456.\<close>

theorem guess_scoring_witness:
  "guess ''s1'' (JStr ''ABCD'') (JStr ''455'') active_state =
     Done \<lparr>rooms = [(''ABCD'',
              active_room\<lparr>turnOrder := [Some ''s2'', Some ''s1''], turnTimer := Some 1\<rparr>)],
           timeouts = [(1, JStr ''ABCD'')], nextTimer = 2\<rparr>
       [RoomEmit (JStr ''ABCD'') (GuessResult ''s1'' (JStr ''455'') 2),
        RoomEmit (JStr ''ABCD'') (TurnChanged (JStr ''ABCD'') (Some ''s2''))] \<and>
   guess ''s1'' (JStr ''ABCD'') (JStr ''456'') active_state =
     Done \<lparr>rooms = [(''ABCD'', active_room\<lparr>winner := Some ''s1'', turnTimer := None\<rparr>)],
           timeouts = [], nextTimer = 1\<rparr>
       [RoomEmit (JStr ''ABCD'') (GuessResult ''s1'' (JStr ''456'') 3),
        RoomEmit (JStr ''ABCD'') (GameOver ''s1'' (JStr ''Anna'') (Some ''s2'') (JStr ''Ben''))]"
proof -
  let ?me = "\<lparr>name = JStr ''Anna'', secret = JStr ''123'', ready = True\<rparr>"
  let ?opp = "\<lparr>name = JStr ''Ben'', secret = JStr ''456'', ready = True\<rparr>"
  have h: "to_string (JStr ''ABCD'') = Inr ''ABCD''"
    "get_room active_state ''ABCD'' = Own active_room" "started active_room"
    "winner active_room = None"
    "turnOrder active_room = [Some ''s1'', Some ''s2'']"
    "map_of (players active_room) ''s1'' = Some ?me"
    "map_of (players active_room) ''s2'' = Some ?opp"
    "secret ?opp = JStr ''456''"
    by code_simp+
  have a: "all_digits ''455''" "int (length ''455'') = codeLength active_room"
    "length ''456'' = length ''455''"
    and b: "all_digits ''456''" "int (length ''456'') = codeLength active_room"
    "length ''456'' = length ''456''"
    by code_simp+
  have k: "matching_positions ''455'' ''456'' = 2" "matching_positions ''456'' ''456'' = 3"
    by code_simp+
  have t: "startTurnTimer (JStr ''ABCD'')
             (put_room ''ABCD'' (active_room\<lparr>turnOrder := [Some ''s2'', Some ''s1'']\<rparr>)
                active_state) =
           Inr \<lparr>rooms = [(''ABCD'',
                  active_room\<lparr>turnOrder := [Some ''s2'', Some ''s1''], turnTimer := Some 1\<rparr>)],
                timeouts = [(1, JStr ''ABCD'')], nextTimer = 2\<rparr>"
    "clearTurnTimer (JStr ''ABCD'')
       (put_room ''ABCD'' (active_room\<lparr>winner := Some ''s1''\<rparr>) active_state) =
     Inr \<lparr>rooms = [(''ABCD'', active_room\<lparr>winner := Some ''s1'', turnTimer := None\<rparr>)],
          timeouts = [], nextTimer = 1\<rparr>"
    by code_simp+
  from guess_scoring [OF h(1,2,3,4) a(1,2) h(5,6,7,8) a(3)] k t
  have 1: "guess ''s1'' (JStr ''ABCD'') (JStr ''455'') active_state =
     Done \<lparr>rooms = [(''ABCD'',
              active_room\<lparr>turnOrder := [Some ''s2'', Some ''s1''], turnTimer := Some 1\<rparr>)],
           timeouts = [(1, JStr ''ABCD'')], nextTimer = 2\<rparr>
       [RoomEmit (JStr ''ABCD'') (GuessResult ''s1'' (JStr ''455'') 2),
        RoomEmit (JStr ''ABCD'') (TurnChanged (JStr ''ABCD'') (Some ''s2''))]"
    by auto
  from guess_scoring [OF h(1,2,3,4) b(1,2) h(5,6,7,8) b(3)] k t
  have 2: "guess ''s1'' (JStr ''ABCD'') (JStr ''456'') active_state =
     Done \<lparr>rooms = [(''ABCD'', active_room\<lparr>winner := Some ''s1'', turnTimer := None\<rparr>)],
           timeouts = [], nextTimer = 1\<rparr>
       [RoomEmit (JStr ''ABCD'') (GuessResult ''s1'' (JStr ''456'') 3),
        RoomEmit (JStr ''ABCD'') (GameOver ''s1'' (JStr ''Anna'') (Some ''s2'') (JStr ''Ben''))]"
    by auto
  from 1 2 show ?thesis by simp
qed

text \<open>
  The specification's example "654 scores 0" fails: the handler broadcasts the score 1.
\<close>

theorem score_654_counterexample:
  "emitted (guess ''s1'' (JStr ''ABCD'') (JStr ''654'') active_state) =
     [RoomEmit (JStr ''ABCD'') (GuessResult ''s1'' (JStr ''654'') 1),
      RoomEmit (JStr ''ABCD'') (TurnChanged (JStr ''ABCD'') (Some ''s2''))]"
  by code_simp

subsection \<open>skipTurn\<close>

text \<open>
  C9 (skipTurn frame condition). In an Active session skipTurn by the active player
  swaps the turn order and broadcasts \<open>turnSkipped\<close>; the new state differs from the old
  one in the \<open>turnOrder\<close> field of that room only. Players and their secrets, the code
  length, \<open>started\<close>, \<open>winner\<close> (hence the phase) and the room's timer are as before, and
  no timeout is cleared or scheduled.
\<close>

theorem skipTurn_frame:
  assumes "to_string roomId = Inr key" and "get_room s key = Own r"
    and "started r" and "winner r = None"
    and "turnOrder r = [Some sid, other]"
  shows "skipTurn sid roomId s =
           Done (s\<lparr>rooms := AList.update key (r\<lparr>turnOrder := [other, Some sid]\<rparr>) (rooms s)\<rparr>)
             [RoomEmit roomId (TurnSkipped (Some sid) other)] \<and>
         phase_of (r\<lparr>turnOrder := [other, Some sid]\<rparr>) = phase_of r \<and>
         timeouts (state_of (skipTurn sid roomId s)) = timeouts s \<and>
         live_timers (state_of (skipTurn sid roomId s)) key = live_timers s key"
  using assms by (simp add: skipTurn_def Let_def put_room_def phase_of_def live_timers_def)

theorem skipTurn_frame_witness:
  "skipTurn ''s1'' (JStr ''ABCD'') active_state =
     Done (active_state\<lparr>rooms := [(''ABCD'', active_room\<lparr>turnOrder := [Some ''s2'', Some ''s1'']\<rparr>)]\<rparr>)
       [RoomEmit (JStr ''ABCD'') (TurnSkipped (Some ''s1'') (Some ''s2''))] \<and>
   live_timers (state_of (skipTurn ''s1'' (JStr ''ABCD'') active_state)) ''ABCD'' = [0] \<and>
   live_timers active_state ''ABCD'' = [0]"
proof -
  have h: "to_string (JStr ''ABCD'') = Inr ''ABCD''"
    "get_room active_state ''ABCD'' = Own active_room" "started active_room"
    "winner active_room = None" "turnOrder active_room = [Some ''s1'', Some ''s2'']"
    by code_simp+
  have r: "rooms active_state = [(''ABCD'', active_room)]" "live_timers active_state ''ABCD'' = [0]"
    by code_simp+
  from skipTurn_frame [OF h] r show ?thesis by (simp add: live_timers_def)
qed


subsection \<open>Guard order of the guess handler\<close>




subsection \<open>Dropped actions\<close>

text \<open>
  A well-formed setSecret of a player: the room is told that the player is ready and
  the player's entry holds the secret, in every phase; once the room has started
  nothing else happens.
\<close>

lemma setSecret_accepted:
  assumes "to_string roomId = Inr key" and "get_room s key = Own r"
    and "map_of (players r) sid = Some p"
    and "length_equals sec (codeLength r) = Inr True" and "test_digits sec = Inr True"
  shows "emitted (setSecret sid roomId sec coin s) \<noteq> [] \<and>
         hd (emitted (setSecret sid roomId sec coin s)) =
           RoomEmit roomId (PlayerReady sid (name p)
             (length (AList.update sid (p\<lparr>secret := sec, ready := True\<rparr>) (players r)) = 2 \<and>
              list_all (\<lambda>e. ready (snd e))
                (AList.update sid (p\<lparr>secret := sec, ready := True\<rparr>) (players r)))) \<and>
         map_option (\<lambda>r'. map_of (players r') sid)
           (map_of (rooms (state_of (setSecret sid roomId sec coin s))) key) =
           Some (Some (p\<lparr>secret := sec, ready := True\<rparr>)) \<and>
         (started r \<longrightarrow>
            setSecret sid roomId sec coin s =
              Done (put_room key
                      (r\<lparr>players :=
                           AList.update sid (p\<lparr>secret := sec, ready := True\<rparr>) (players r)\<rparr>) s)
                [RoomEmit roomId (PlayerReady sid (name p)
                   (length (AList.update sid (p\<lparr>secret := sec, ready := True\<rparr>) (players r)) = 2 \<and>
                    list_all (\<lambda>e. ready (snd e))
                      (AList.update sid (p\<lparr>secret := sec, ready := True\<rparr>) (players r))))])"
  using assms
  by (auto simp: setSecret_def Let_def startTurnTimer_Own update_conv')


text \<open>
  C5 (silent drops), as the code has it. No message is sent and the state stays as it is
  when: a setSecret names a key that \<open>rooms\<close> does not resolve, comes from a socket that
  is not a player of the room, or carries a secret whose \<open>length\<close> is not \<open>codeLength\<close>
  or whose string form is not all digits; a guess names a key that is no room or a room
  that has not started, or carries a value whose string form is not all digits or
  whose \<open>length\<close> is not \<open>codeLength\<close>; a skipTurn names a key that is no room or a room
  that has not started, or comes from anyone but the first of the turn order. A
  well-formed setSecret of a player is accepted in every phase: it stores the secret,
  marks the player ready and broadcasts \<open>playerReady\<close>, and once the room has started
  it does nothing else.
\<close>

theorem silent_drops:
  assumes "to_string roomId = Inr key"
  shows
  "(get_room s key = Undefined \<longrightarrow>
      setSecret sid roomId sec coin s = Done s [] \<and>
      guess sid roomId v s = Done s [] \<and>
      skipTurn sid roomId s = Done s []) \<and>
   (get_room s key = Inherited \<longrightarrow>
      guess sid roomId v s = Done s [] \<and>
      skipTurn sid roomId s = Done s []) \<and>
   (get_room s key = Own r \<longrightarrow>
      (map_of (players r) sid = None \<longrightarrow> setSecret sid roomId sec coin s = Done s []) \<and>
      (length_equals sec (codeLength r) = Inr False \<longrightarrow>
         setSecret sid roomId sec coin s = Done s []) \<and>
      (length_equals sec (codeLength r) = Inr True \<and> test_digits sec = Inr False \<longrightarrow>
         setSecret sid roomId sec coin s = Done s []) \<and>
      (\<not> started r \<longrightarrow>
         guess sid roomId v s = Done s [] \<and> skipTurn sid roomId s = Done s []) \<and>
      (test_digits v = Inr False \<longrightarrow> guess sid roomId v s = Done s []) \<and>
      (test_digits v = Inr True \<and> length_equals v (codeLength r) = Inr False \<longrightarrow>
         guess sid roomId v s = Done s []) \<and>
      (elem_at (turnOrder r) 0 \<noteq> Some sid \<longrightarrow> skipTurn sid roomId s = Done s []) \<and>
      (map_of (players r) sid = Some p \<and> length_equals sec (codeLength r) = Inr True \<and>
       test_digits sec = Inr True \<longrightarrow>
         (let p1 = p\<lparr>secret := sec, ready := True\<rparr>;
              ps = AList.update sid p1 (players r);
              allReady = (length ps = 2 \<and> list_all (\<lambda>e. ready (snd e)) ps)
          in emitted (setSecret sid roomId sec coin s) \<noteq> [] \<and>
             hd (emitted (setSecret sid roomId sec coin s)) =
               RoomEmit roomId (PlayerReady sid (name p) allReady) \<and>
             map_option (\<lambda>r'. map_of (players r') sid)
               (map_of (rooms (state_of (setSecret sid roomId sec coin s))) key) =
               Some (Some p1) \<and>
             (started r \<longrightarrow>
                setSecret sid roomId sec coin s =
                  Done (put_room key (r\<lparr>players := ps\<rparr>) s)
                    [RoomEmit roomId (PlayerReady sid (name p) allReady)]))))"
proof -
  have a: "get_room s key = Undefined \<longrightarrow>
      setSecret sid roomId sec coin s = Done s [] \<and>
      guess sid roomId v s = Done s [] \<and>
      skipTurn sid roomId s = Done s []"
    using assms by (simp add: setSecret_def guess_def skipTurn_def)
  have b: "get_room s key = Inherited \<longrightarrow>
      guess sid roomId v s = Done s [] \<and> skipTurn sid roomId s = Done s []"
    using assms by (simp add: guess_def skipTurn_def)
  have c: "get_room s key = Own r \<longrightarrow>
      (map_of (players r) sid = None \<longrightarrow> setSecret sid roomId sec coin s = Done s []) \<and>
      (length_equals sec (codeLength r) = Inr False \<longrightarrow>
         setSecret sid roomId sec coin s = Done s []) \<and>
      (length_equals sec (codeLength r) = Inr True \<and> test_digits sec = Inr False \<longrightarrow>
         setSecret sid roomId sec coin s = Done s [])"
    using assms by (auto simp: setSecret_def split: option.splits)
  have d: "get_room s key = Own r \<longrightarrow>
      (\<not> started r \<longrightarrow>
         guess sid roomId v s = Done s [] \<and> skipTurn sid roomId s = Done s []) \<and>
      (test_digits v = Inr False \<longrightarrow> guess sid roomId v s = Done s []) \<and>
      (test_digits v = Inr True \<and> length_equals v (codeLength r) = Inr False \<longrightarrow>
         guess sid roomId v s = Done s []) \<and>
      (elem_at (turnOrder r) 0 \<noteq> Some sid \<longrightarrow> skipTurn sid roomId s = Done s [])"
    using assms by (auto simp: guess_def skipTurn_def)
  have e: "get_room s key = Own r \<longrightarrow>
      (map_of (players r) sid = Some p \<and> length_equals sec (codeLength r) = Inr True \<and>
       test_digits sec = Inr True \<longrightarrow>
         (let p1 = p\<lparr>secret := sec, ready := True\<rparr>;
              ps = AList.update sid p1 (players r);
              allReady = (length ps = 2 \<and> list_all (\<lambda>e. ready (snd e)) ps)
          in emitted (setSecret sid roomId sec coin s) \<noteq> [] \<and>
             hd (emitted (setSecret sid roomId sec coin s)) =
               RoomEmit roomId (PlayerReady sid (name p) allReady) \<and>
             map_option (\<lambda>r'. map_of (players r') sid)
               (map_of (rooms (state_of (setSecret sid roomId sec coin s))) key) =
               Some (Some p1) \<and>
             (started r \<longrightarrow>
                setSecret sid roomId sec coin s =
                  Done (put_room key (r\<lparr>players := ps\<rparr>) s)
                    [RoomEmit roomId (PlayerReady sid (name p) allReady)])))"
    using setSecret_accepted [OF assms, of s r sid p sec coin]
    by (simp add: Let_def)
  from a b c d e show ?thesis by simp
qed


text \<open>
  Each of the cases on the example run: before the game has started, while it runs
  and after it is won.
\<close>

theorem silent_drops_witness:
  "setSecret ''s1'' (JStr ''ZZZZ'') (JStr ''123'') True active_state = Done active_state [] \<and>
   guess ''s1'' (JStr ''ZZZZ'') (JStr ''123'') active_state = Done active_state [] \<and>
   skipTurn ''s1'' (JStr ''ZZZZ'') active_state = Done active_state [] \<and>
   guess ''s1'' (JStr ''toString'') (JStr ''123'') active_state = Done active_state [] \<and>
   skipTurn ''s1'' (JStr ''toString'') active_state = Done active_state [] \<and>
   setSecret ''s3'' (JStr ''ABCD'') (JStr ''123'') True lobby_state = Done lobby_state [] \<and>
   setSecret ''s1'' (JStr ''ABCD'') (JStr ''12a'') True lobby_state = Done lobby_state [] \<and>
   setSecret ''s1'' (JStr ''ABCD'') (JStr ''1234'') True lobby_state = Done lobby_state [] \<and>
   setSecret ''s1'' (JStr ''ABCD'') (JNum ''123'') True lobby_state = Done lobby_state [] \<and>
   guess ''s1'' (JStr ''ABCD'') (JStr ''123'') lobby_state = Done lobby_state [] \<and>
   skipTurn ''s1'' (JStr ''ABCD'') lobby_state = Done lobby_state [] \<and>
   guess ''s1'' (JStr ''ABCD'') (JStr ''12'') active_state = Done active_state [] \<and>
   guess ''s1'' (JStr ''ABCD'') (JStr ''12x'') active_state = Done active_state [] \<and>
   skipTurn ''s2'' (JStr ''ABCD'') active_state = Done active_state [] \<and>
   setSecret ''s2'' (JStr ''ABCD'') (JStr ''999'') False won_state =
     Done (put_room ''ABCD''
             (won_room\<lparr>players :=
                [(''s1'', \<lparr>name = JStr ''Anna'', secret = JStr ''123'', ready = True\<rparr>),
                 (''s2'', \<lparr>name = JStr ''Ben'', secret = JStr ''999'', ready = True\<rparr>)]\<rparr>)
             won_state)
       [RoomEmit (JStr ''ABCD'') (PlayerReady ''s2'' (JStr ''Ben'') True)] \<and>
   hd (emitted (setSecret ''s1'' (JStr ''ABCD'') (JStr ''123'') True lobby_state)) =
     RoomEmit (JStr ''ABCD'') (PlayerReady ''s1'' (JStr ''Anna'') False)"
proof -
  let ?ben = "\<lparr>name = JStr ''Ben'', secret = JStr ''456'', ready = True\<rparr>"
  let ?anna = "\<lparr>name = JStr ''Anna'', secret = JStr [], ready = False\<rparr>"
  have k: "to_string (JStr ''ZZZZ'') = Inr ''ZZZZ''"
    "to_string (JStr ''toString'') = Inr ''toString''"
    "to_string (JStr ''ABCD'') = Inr ''ABCD''"
    by simp_all
  have u: "get_room active_state ''ZZZZ'' = Undefined"
    and i: "get_room active_state ''toString'' = Inherited"
    and l: "get_room lobby_state ''ABCD'' = Own lobby_room"
    and a: "get_room active_state ''ABCD'' = Own active_room"
    and w: "get_room won_state ''ABCD'' = Own won_room"
    by code_simp+
  have h: "map_of (players lobby_room) ''s3'' = None"
    "length_equals (JStr ''12a'') (codeLength lobby_room) = Inr True"
    "test_digits (JStr ''12a'') = Inr False"
    "length_equals (JStr ''1234'') (codeLength lobby_room) = Inr False"
    "length_equals (JNum ''123'') (codeLength lobby_room) = Inr False"
    "\<not> started lobby_room"
    "test_digits (JStr ''12'') = Inr True"
    "length_equals (JStr ''12'') (codeLength active_room) = Inr False"
    "test_digits (JStr ''12x'') = Inr False"
    "elem_at (turnOrder active_room) 0 \<noteq> Some ''s2''"
    by code_simp+
  have acc: "map_of (players won_room) ''s2'' = Some ?ben"
    "length_equals (JStr ''999'') (codeLength won_room) = Inr True"
    "test_digits (JStr ''999'') = Inr True" "started won_room"
    "AList.update ''s2'' (?ben\<lparr>secret := JStr ''999'', ready := True\<rparr>) (players won_room) =
       [(''s1'', \<lparr>name = JStr ''Anna'', secret = JStr ''123'', ready = True\<rparr>),
        (''s2'', \<lparr>name = JStr ''Ben'', secret = JStr ''999'', ready = True\<rparr>)]"
    and lob: "map_of (players lobby_room) ''s1'' = Some ?anna"
    "length_equals (JStr ''123'') (codeLength lobby_room) = Inr True"
    "test_digits (JStr ''123'') = Inr True"
    "AList.update ''s1'' (?anna\<lparr>secret := JStr ''123'', ready := True\<rparr>) (players lobby_room) =
       [(''s1'', \<lparr>name = JStr ''Anna'', secret = JStr ''123'', ready = True\<rparr>),
        (''s2'', \<lparr>name = JStr ''Ben'', secret = JStr [], ready = False\<rparr>)]"
    by code_simp+
  note d = silent_drops [where coin = True]
  from d [OF k(1), where s = active_state and sid = "''s1''"
            and sec = "JStr ''123''" and v = "JStr ''123''"] u
  have 1: "setSecret ''s1'' (JStr ''ZZZZ'') (JStr ''123'') True active_state = Done active_state []"
    "guess ''s1'' (JStr ''ZZZZ'') (JStr ''123'') active_state = Done active_state []"
    "skipTurn ''s1'' (JStr ''ZZZZ'') active_state = Done active_state []"
    by simp_all
  from d [OF k(2), where s = active_state and sid = "''s1''" and v = "JStr ''123''"] i
  have 2: "guess ''s1'' (JStr ''toString'') (JStr ''123'') active_state = Done active_state []"
    "skipTurn ''s1'' (JStr ''toString'') active_state = Done active_state []"
    by simp_all
  from d [OF k(3), where s = lobby_state and sid = "''s3''"
            and sec = "JStr ''123''" and r = lobby_room] l h
  have 3: "setSecret ''s3'' (JStr ''ABCD'') (JStr ''123'') True lobby_state = Done lobby_state []"
    by simp
  from d [OF k(3), where s = lobby_state and sid = "''s1''"
            and sec = "JStr ''12a''" and v = "JStr ''123''" and r = lobby_room] l h
  have 4: "setSecret ''s1'' (JStr ''ABCD'') (JStr ''12a'') True lobby_state = Done lobby_state []"
    "guess ''s1'' (JStr ''ABCD'') (JStr ''123'') lobby_state = Done lobby_state []"
    "skipTurn ''s1'' (JStr ''ABCD'') lobby_state = Done lobby_state []"
    by simp_all
  from d [OF k(3), where s = lobby_state and sid = "''s1''"
            and sec = "JStr ''1234''" and r = lobby_room]
       d [OF k(3), where s = lobby_state and sid = "''s1''"
            and sec = "JNum ''123''" and r = lobby_room] l h
  have 5: "setSecret ''s1'' (JStr ''ABCD'') (JStr ''1234'') True lobby_state = Done lobby_state []"
    "setSecret ''s1'' (JStr ''ABCD'') (JNum ''123'') True lobby_state = Done lobby_state []"
    by simp_all
  from d [OF k(3), where s = active_state and sid = "''s1''"
            and v = "JStr ''12''" and r = active_room]
       d [OF k(3), where s = active_state and sid = "''s1''"
            and v = "JStr ''12x''" and r = active_room] a h
  have 6: "guess ''s1'' (JStr ''ABCD'') (JStr ''12'') active_state = Done active_state []"
    "guess ''s1'' (JStr ''ABCD'') (JStr ''12x'') active_state = Done active_state []"
    by simp_all
  from d [OF k(3), where s = active_state and sid = "''s2''" and r = active_room] a h
  have 7: "skipTurn ''s2'' (JStr ''ABCD'') active_state = Done active_state []"
    by simp
  from silent_drops [OF k(3), where coin = False and s = won_state and sid = "''s2''"
            and sec = "JStr ''999''" and r = won_room and p = ?ben] w acc
  have 8: "setSecret ''s2'' (JStr ''ABCD'') (JStr ''999'') False won_state =
     Done (put_room ''ABCD''
             (won_room\<lparr>players :=
                [(''s1'', \<lparr>name = JStr ''Anna'', secret = JStr ''123'', ready = True\<rparr>),
                 (''s2'', \<lparr>name = JStr ''Ben'', secret = JStr ''999'', ready = True\<rparr>)]\<rparr>)
             won_state)
       [RoomEmit (JStr ''ABCD'') (PlayerReady ''s2'' (JStr ''Ben'') True)]"
    by (simp add: Let_def)
  from d [OF k(3), where s = lobby_state and sid = "''s1''"
            and sec = "JStr ''123''" and r = lobby_room and p = ?anna] l lob
  have 9: "hd (emitted (setSecret ''s1'' (JStr ''ABCD'') (JStr ''123'') True lobby_state)) =
     RoomEmit (JStr ''ABCD'') (PlayerReady ''s1'' (JStr ''Anna'') False)"
    by (simp add: Let_def)
  from 1 2 3 4 5 6 7 8 9 show ?thesis by simp
qed

text \<open>
  setSecret is not tied to the phase: in the running game Ben replaces his secret, and
  the room is told that he is ready. Only the start of the game is guarded by
  \<open>!room.started\<close>.
\<close>

theorem setSecret_while_active_counterexample:
  "map_option phase_of (map_of (rooms active_state) ''ABCD'') = Some Active \<and>
   emitted (setSecret ''s2'' (JStr ''ABCD'') (JStr ''999'') False active_state) =
     [RoomEmit (JStr ''ABCD'') (PlayerReady ''s2'' (JStr ''Ben'') True)] \<and>
   map_option (\<lambda>r. map (\<lambda>e. secret (snd e)) (players r))
     (map_of (rooms (state_of
        (setSecret ''s2'' (JStr ''ABCD'') (JStr ''999'') False active_state))) ''ABCD'') =
     Some [JStr ''123'', JStr ''999''] \<and>
   state_of (setSecret ''s2'' (JStr ''ABCD'') (JStr ''999'') False active_state) \<noteq> active_state"
  by code_simp

subsection \<open>Handlers that do not test for the end of the game\<close>

text \<open>
  The timer callback returns when \<open>r.winner\<close> is set; the guess and skipTurn handlers
  test \<open>room.started\<close> only, so they go on serving a finished game.
\<close>

text \<open>
  C1 (winner set once) fails on the code. After Anna has won, she skips her turn and Ben
  guesses her code: \<open>winner\<close> is assigned a second time and now names Ben, and a second
  \<open>gameOver\<close> is broadcast.
\<close>

theorem winner_reassigned:
  "map_option winner (map_of (rooms won_state) ''ABCD'') = Some (Some ''s1'') \<and>
   run won_state [SkipTurn ''s1'' (JStr ''ABCD''), Guess ''s2'' (JStr ''ABCD'') (JStr ''123'')] =
     Done (won_state\<lparr>rooms := [(''ABCD'',
             won_room\<lparr>turnOrder := [Some ''s2'', Some ''s1''], winner := Some ''s2''\<rparr>)]\<rparr>)
       [RoomEmit (JStr ''ABCD'') (TurnSkipped (Some ''s1'') (Some ''s2'')),
        RoomEmit (JStr ''ABCD'') (GuessResult ''s2'' (JStr ''123'') 3),
        RoomEmit (JStr ''ABCD'') (GameOver ''s2'' (JStr ''Ben'') (Some ''s1'') (JStr ''Anna''))]"
  by code_simp

text \<open>
  C3 (guess outside Active is ignored) fails on the code for a finished game. After
  Anna has won, her next guess is scored and broadcast, the turn passes to Ben and a
  timer is started; a guess by Ben is answered with the error message.
\<close>

theorem finished_guess_processed:
  "map_option phase_of (map_of (rooms won_state) ''ABCD'') = Some Finished \<and>
   on_event (Guess ''s1'' (JStr ''ABCD'') (JStr ''000'')) won_state =
     Done \<lparr>rooms = [(''ABCD'',
              won_room\<lparr>turnOrder := [Some ''s2'', Some ''s1''], turnTimer := Some 1\<rparr>)],
           timeouts = [(1, JStr ''ABCD'')], nextTimer = 2\<rparr>
       [RoomEmit (JStr ''ABCD'') (GuessResult ''s1'' (JStr ''000'') 0),
        RoomEmit (JStr ''ABCD'') (TurnChanged (JStr ''ABCD'') (Some ''s2''))] \<and>
   on_event (Guess ''s2'' (JStr ''ABCD'') (JStr ''000'')) won_state =
     Done won_state [SocketEmit ''s2'' (ErrorMessage ''Du bist nicht am Zug.'')]"
  by code_simp

text \<open>
  C4 (timer cardinality) fails on the code for a finished game. The win clears the
  timer, and the winner's next guess schedules a new one: the finished game has a live
  timer.
\<close>

theorem timer_live_when_finished:
  "live_timers won_state ''ABCD'' = [] \<and>
   map_option phase_of
     (map_of (rooms (state_of
        (run won_state [Guess ''s1'' (JStr ''ABCD'') (JStr ''000'')]))) ''ABCD'') =
     Some Finished \<and>
   live_timers (state_of (run won_state [Guess ''s1'' (JStr ''ABCD'') (JStr ''000'')])) ''ABCD'' = [1]"
  by code_simp

subsection \<open>A player leaves a running game\<close>

text \<open>
  The disconnect handler removes the player from \<open>players\<close> and leaves \<open>turnOrder\<close> as
  it is; the guess handler reads the opponent named by \<open>turnOrder\<close> without a test.
\<close>

text \<open>
  C6 (turn order names exactly the current players) fails on the code. After Ben has
  left the running game the session is still Active, its only player is Anna, and the
  turn order still names both.
\<close>

theorem turnOrder_keeps_departed_player:
  "map_option (\<lambda>r. (phase_of r, turnOrder r, map fst (players r)))
     (map_of (rooms left_state) ''ABCD'') =
     Some (Active, [Some ''s1'', Some ''s2''], [''s1''])"
  by code_simp

text \<open>
  C2 (no handler throws) fails on the code. After Ben has left, Anna's guess reads
  \<open>opponent.secret\<close> of an opponent that is \<open>undefined\<close>; and a joinRoom for the key
  \<open>constructor\<close> finds a member of \<open>Object.prototype\<close> and reads the keys of its missing
  \<open>players\<close>. Both throw a TypeError.
\<close>

theorem guess_throws_after_disconnect:
  "map_option phase_of (map_of (rooms left_state) ''ABCD'') = Some Active \<and>
   on_event (Guess ''s1'' (JStr ''ABCD'') (JStr ''456'')) left_state =
     Thrown TypeError left_state [] \<and>
   on_event (JoinRoom ''s3'' (JStr ''Cem'') (JStr ''constructor'')) init = Thrown TypeError init []"
  by code_simp


end
